theory Spec2Isabelle
  imports Main "HOL-Library.Sublist"
begin

section \<open>The audit runner of \<^verbatim>\<open>debug_audit.py\<close>\<close>

text \<open>
  The program is one function, \<^verbatim>\<open>run()\<close>: it prints a banner, starts the audit script as a
  child process with \<^verbatim>\<open>subprocess.run\<close>, and prints what the child wrote and its exit
  code; an \<^verbatim>\<open>except Exception\<close> clause around the launch and the report prints
  \<^verbatim>\<open>FAILED: ...\<close> instead.

  Everything the function does is an effect on the world outside it, so the model is a
  function from the behaviour of that world (\<open>env\<close>) and the effects so far to an outcome
  and the effects afterwards. A Python text is kept as the bytes of its UTF-8 form, one
  \<open>char\<close> per byte, so that a text and the bytes a child wrote are both a \<open>string\<close>.
\<close>

subsection \<open>What can be raised\<close>

text \<open>
  \<open>Exception m\<close> is an instance of Python's class \<^verbatim>\<open>Exception\<close> (of any subclass:
  \<^verbatim>\<open>OSError\<close>, \<^verbatim>\<open>UnicodeDecodeError\<close>, ...) whose \<^verbatim>\<open>str()\<close> is \<open>m\<close>.
  \<open>BaseException m\<close> is a raised object that does not derive from \<^verbatim>\<open>Exception\<close>:
  \<^verbatim>\<open>KeyboardInterrupt\<close>, \<^verbatim>\<open>SystemExit\<close>, \<^verbatim>\<open>GeneratorExit\<close>.
\<close>

datatype py_exception = Exception string | BaseException string

subsection \<open>Rendering an integer: \<^verbatim>\<open>str(int)\<close>, as the f-string does\<close>

definition digit :: "nat \<Rightarrow> char" where
  "digit d = ''0123456789'' ! d"

function str_nat :: "nat \<Rightarrow> string" where
  "str_nat n = (if n < 10 then [digit n] else str_nat (n div 10) @ [digit (n mod 10)])"
  by pat_completeness auto
termination
  by (relation "measure (\<lambda>n. n)") auto

declare str_nat.simps [simp del]

definition str_int :: "int \<Rightarrow> string" where
  "str_int i = (if i < 0 then CHR ''-'' # str_nat (nat (- i)) else str_nat (nat i))"




subsection \<open>Decoding the captured bytes: \<^verbatim>\<open>encoding='utf-8'\<close>, \<^verbatim>\<open>errors=...\<close>\<close>

text \<open>
  \<^verbatim>\<open>subprocess.run(..., text=True, encoding='utf-8', errors='ignore')\<close> decodes what the child
  wrote with Python's UTF-8 codec. The codec scans the bytes from the left. At each
  position it finds either a well-formed sequence of one to four bytes or a malformed
  range, and hands a malformed range to the error handler named by \<^verbatim>\<open>errors\<close>:
  \<^verbatim>\<open>'strict'\<close> (the default) raises \<^verbatim>\<open>UnicodeDecodeError\<close>, \<^verbatim>\<open>'ignore'\<close> skips the
  range and goes on behind it.
\<close>

datatype errors = Strict | Ignore

datatype reason = InvalidStartByte | InvalidContinuationByte | UnexpectedEndOfData

datatype scan = Sequence nat | Malformed nat reason

definition byte :: "char \<Rightarrow> nat" where
  "byte c = of_char c"

definition is_continuation :: "char \<Rightarrow> bool" where
  "is_continuation c = (128 \<le> byte c \<and> byte c < 192)"

text \<open>
  \<open>utf8_scan\<close> looks at the front of the bytes: \<open>Sequence n\<close> for a well-formed sequence
  of \<open>n\<close> bytes, \<open>Malformed n r\<close> for a malformed range of \<open>n\<close> bytes. Lead bytes
  \<^verbatim>\<open>C2..DF\<close> take one continuation byte, \<^verbatim>\<open>E0..EF\<close> two, \<^verbatim>\<open>F0..F4\<close> three;
  \<^verbatim>\<open>80..C1\<close> and \<^verbatim>\<open>F5..FF\<close> start nothing. After \<^verbatim>\<open>E0\<close> and \<^verbatim>\<open>F0\<close> a too small
  second byte is refused (an overlong form), after \<^verbatim>\<open>ED\<close> and \<^verbatim>\<open>F4\<close> a too large one
  (a surrogate, a value beyond \<^verbatim>\<open>10FFFF\<close>).
\<close>

fun utf8_scan :: "string \<Rightarrow> scan" where
  "utf8_scan [] = Malformed 0 UnexpectedEndOfData"
| "utf8_scan (c # cs) =
     (let ch = byte c in
      if ch < 128 then Sequence 1
      else if ch < 224 then
        (if ch < 194 then Malformed 1 InvalidStartByte
         else (case cs of
           [] \<Rightarrow> Malformed 1 UnexpectedEndOfData
         | c2 # _ \<Rightarrow>
             if \<not> is_continuation c2 then Malformed 1 InvalidContinuationByte
             else Sequence 2))
      else if ch < 240 then
        (case cs of
           [] \<Rightarrow> Malformed 1 UnexpectedEndOfData
         | c2 # cs2 \<Rightarrow>
             if \<not> is_continuation c2 \<or> (if byte c2 < 160 then ch = 224 else ch = 237)
             then Malformed 1 InvalidContinuationByte
             else (case cs2 of
               [] \<Rightarrow> Malformed 2 UnexpectedEndOfData
             | c3 # _ \<Rightarrow>
                 if \<not> is_continuation c3 then Malformed 2 InvalidContinuationByte
                 else Sequence 3))
      else if ch < 245 then
        (case cs of
           [] \<Rightarrow> Malformed 1 UnexpectedEndOfData
         | c2 # cs2 \<Rightarrow>
             if \<not> is_continuation c2 \<or> (if byte c2 < 144 then ch = 240 else ch = 244)
             then Malformed 1 InvalidContinuationByte
             else (case cs2 of
               [] \<Rightarrow> Malformed 2 UnexpectedEndOfData
             | c3 # cs3 \<Rightarrow>
                 if \<not> is_continuation c3 then Malformed 2 InvalidContinuationByte
                 else (case cs3 of
                   [] \<Rightarrow> Malformed 3 UnexpectedEndOfData
                 | c4 # _ \<Rightarrow>
                     if \<not> is_continuation c4 then Malformed 3 InvalidContinuationByte
                     else Sequence 4)))
      else Malformed 1 InvalidStartByte)"

text \<open>
  A \<^verbatim>\<open>UnicodeDecodeError\<close> carries the malformed range \<open>start..<stop\<close> and the reason.
\<close>

datatype decode_error = UnicodeDecodeError nat nat reason

function decode_from :: "errors \<Rightarrow> nat \<Rightarrow> string \<Rightarrow> decode_error + string" where
  "decode_from h pos [] = Inr []"
| "decode_from h pos (c # cs) =
     (case utf8_scan (c # cs) of
        Sequence n \<Rightarrow>
          (case decode_from h (pos + n) (drop n (c # cs)) of
             Inl e \<Rightarrow> Inl e
           | Inr t \<Rightarrow> Inr (take n (c # cs) @ t))
      | Malformed n r \<Rightarrow>
          (case h of
             Strict \<Rightarrow> Inl (UnicodeDecodeError pos (pos + n) r)
           | Ignore \<Rightarrow> decode_from h (pos + n) (drop n (c # cs))))"
  by pat_completeness auto
termination
  by (relation "measure (\<lambda>(h, pos, bs). length bs)")
    (auto simp: Let_def split: if_splits list.splits)

declare decode_from.simps [simp del]

definition decode :: "errors \<Rightarrow> string \<Rightarrow> decode_error + string" where
  "decode h bs = decode_from h 0 bs"

text \<open>
  The message of a \<^verbatim>\<open>UnicodeDecodeError\<close>, as its \<^verbatim>\<open>str()\<close> gives it: the byte in
  two hexadecimal digits when the range is one byte, the first and last position
  otherwise.
\<close>

definition hex_digit :: "nat \<Rightarrow> char" where
  "hex_digit d = ''0123456789abcdef'' ! d"

fun str_reason :: "reason \<Rightarrow> string" where
  "str_reason InvalidStartByte = ''invalid start byte''"
| "str_reason InvalidContinuationByte = ''invalid continuation byte''"
| "str_reason UnexpectedEndOfData = ''unexpected end of data''"

fun str_decode_error :: "string \<Rightarrow> decode_error \<Rightarrow> string" where
  "str_decode_error bs (UnicodeDecodeError start stop r) =
     (if start < length bs \<and> stop = start + 1
      then [CHR 0x27] @ ''utf-8'' @ [CHR 0x27] @ '' codec can'' @ [CHR 0x27] @ ''t decode byte 0x''
           @ [hex_digit (byte (bs ! start) div 16), hex_digit (byte (bs ! start) mod 16)]
           @ '' in position '' @ str_nat start @ '': '' @ str_reason r
      else [CHR 0x27] @ ''utf-8'' @ [CHR 0x27] @ '' codec can'' @ [CHR 0x27] @ ''t decode bytes in position ''
           @ str_nat start @ ''-'' @ str_nat (stop - 1) @ '': '' @ str_reason r)"

text \<open>
  Text mode (\<^verbatim>\<open>text=True\<close>) also turns every line end into \<^verbatim>\<open>\n\<close>: the library's
  \<^verbatim>\<open>data.decode(encoding, errors).replace("\r\n", "\n").replace("\r", "\n")\<close>.
\<close>

fun crlf_to_lf :: "string \<Rightarrow> string" where
  "crlf_to_lf [] = []"
| "crlf_to_lf [c] = [c]"
| "crlf_to_lf (c # d # cs) =
     (if c = CHR 0x0D \<and> d = CHR 0x0A then CHR 0x0A # crlf_to_lf cs
      else c # crlf_to_lf (d # cs))"

definition cr_to_lf :: "string \<Rightarrow> string" where
  "cr_to_lf s = map (\<lambda>c. if c = CHR 0x0D then CHR 0x0A else c) s"

definition translate_newlines :: "errors \<Rightarrow> string \<Rightarrow> py_exception + string" where
  "translate_newlines h bs =
     (case decode h bs of
        Inl e \<Rightarrow> Inl (Exception (str_decode_error bs e))
      | Inr t \<Rightarrow> Inr (cr_to_lf (crlf_to_lf t)))"

subsection \<open>The world around the program\<close>

text \<open>
  The effects a run can have on its surroundings, in the order they happen. \<open>run\<close> has
  effects of the first two kinds only; the other three are there so that this can be said.
\<close>

datatype effect =
    ConsoleWrite string
  | Spawn "string list"
  | FileWrite string string
  | NetworkSend string
  | EnvironmentSet string string

type_synonym world = "effect list"

fun written :: "effect \<Rightarrow> string" where
  "written (ConsoleWrite s) = s"
| "written _ = []"

definition console_text :: "world \<Rightarrow> string" where
  "console_text w = concat (map written w)"

fun spawn_args :: "effect \<Rightarrow> string list list" where
  "spawn_args (Spawn args) = [args]"
| "spawn_args _ = []"

definition spawned :: "world \<Rightarrow> string list list" where
  "spawned w = concat (map spawn_args w)"

fun console_or_spawn :: "effect \<Rightarrow> bool" where
  "console_or_spawn (ConsoleWrite s) = True"
| "console_or_spawn (Spawn args) = True"
| "console_or_spawn _ = False"

text \<open>What a child process leaves behind: its exit status and the bytes it wrote.\<close>

record raw_output =
  exit_status :: int
  stdout_bytes :: string
  stderr_bytes :: string

text \<open>\<^verbatim>\<open>subprocess.CompletedProcess\<close>, the fields \<open>run\<close> reads.\<close>

record completed_process =
  returncode :: int
  stdout :: string
  stderr :: string

text \<open>
  What the program cannot decide itself:
  \<^item> \<open>sys_executable\<close>: the value of \<^verbatim>\<open>sys.executable\<close>;
  \<^item> \<open>child_process args\<close>: what starting \<open>args\<close> as a process and waiting for it gives,
    the child's exit status and bytes, or what was raised instead (the program not found,
    permission denied, an interrupt while waiting);
  \<^item> \<open>write_error w s\<close>: whether writing the text \<open>s\<close> to standard output, after the
    effects \<open>w\<close>, raises (the pipe is closed, the console cannot encode \<open>s\<close>), and what.
\<close>

record env =
  sys_executable :: string
  child_process :: "string list \<Rightarrow> py_exception + raw_output"
  write_error :: "world \<Rightarrow> string \<Rightarrow> py_exception option"

subsection \<open>Statements in sequence, \<^verbatim>\<open>try\<close> and \<^verbatim>\<open>except Exception\<close>\<close>

text \<open>
  A statement takes the effects so far and gives what it returned or raised (\<open>Inl\<close>) and
  the effects afterwards. What is raised ends the statements that follow it.
\<close>

type_synonym 'a stmt = "world \<Rightarrow> (py_exception + 'a) \<times> world"

definition and_then :: "'a stmt \<Rightarrow> ('a \<Rightarrow> 'b stmt) \<Rightarrow> 'b stmt" where
  "and_then m f w = (case m w of (Inl e, w') \<Rightarrow> (Inl e, w') | (Inr a, w') \<Rightarrow> f a w')"

text \<open>
  \<^verbatim>\<open>try: body except Exception as e: handler\<close>: the handler runs for an instance of
  \<^verbatim>\<open>Exception\<close> and gets its message; anything else raised goes on to the caller.
\<close>

definition try_except_Exception :: "'a stmt \<Rightarrow> (string \<Rightarrow> 'a stmt) \<Rightarrow> 'a stmt" where
  "try_except_Exception body handler w =
     (case body w of
        (Inl (Exception m), w') \<Rightarrow> handler m w'
      | (Inl (BaseException m), w') \<Rightarrow> (Inl (BaseException m), w')
      | (Inr a, w') \<Rightarrow> (Inr a, w'))"

subsection \<open>\<^verbatim>\<open>print\<close> and \<^verbatim>\<open>subprocess.run\<close>\<close>

text \<open>
  \<^verbatim>\<open>print(s)\<close> writes \<open>s\<close> and a line end to standard output, or raises; a \<^verbatim>\<open>print\<close>
  that raises has written nothing.
\<close>

definition print :: "env \<Rightarrow> string \<Rightarrow> unit stmt" where
  "print env s w =
     (case write_error env w s of
        Some e \<Rightarrow> (Inl e, w)
      | None \<Rightarrow> (Inr (), w @ [ConsoleWrite (s @ ''\<newline>'')]))"

text \<open>
  \<^verbatim>\<open>subprocess.run(args, capture_output=True, text=True, encoding='utf-8', errors=h)\<close>:
  start the child and wait for it (\<open>child_process\<close>), then decode what it wrote to
  standard output and what it wrote to standard error (\<open>communicate\<close>). \<open>launch\<close> is what
  the call returns or raises; the call itself is the effect \<open>Spawn args\<close>, whatever comes
  of it.
\<close>

definition communicate :: "errors \<Rightarrow> raw_output \<Rightarrow> py_exception + completed_process" where
  "communicate h raw =
     (case translate_newlines h (stdout_bytes raw) of
        Inl e \<Rightarrow> Inl e
      | Inr out \<Rightarrow>
          (case translate_newlines h (stderr_bytes raw) of
             Inl e \<Rightarrow> Inl e
           | Inr err \<Rightarrow> Inr \<lparr>returncode = exit_status raw, stdout = out, stderr = err\<rparr>))"

definition launch :: "env \<Rightarrow> string list \<Rightarrow> errors \<Rightarrow> py_exception + completed_process" where
  "launch env args h =
     (case child_process env args of
        Inl e \<Rightarrow> Inl e
      | Inr raw \<Rightarrow> communicate h raw)"

definition subprocess_run :: "env \<Rightarrow> string list \<Rightarrow> errors \<Rightarrow> completed_process stmt" where
  "subprocess_run env args h w = (launch env args h, w @ [Spawn args])"

subsection \<open>\<^verbatim>\<open>run\<close>\<close>

text \<open>The command line of the child and the statements under \<^verbatim>\<open>try\<close>, as \<open>run\<close> has them.\<close>

abbreviation audit_args :: "env \<Rightarrow> string list" where
  "audit_args env \<equiv>
     [sys_executable env, ''.agent/skills/frontend-design/scripts/ux_audit.py'', ''.'']"

abbreviation guarded :: "env \<Rightarrow> unit stmt" where
  "guarded env \<equiv>
     and_then (subprocess_run env (audit_args env) Ignore) (\<lambda>result.
     and_then (print env ''STDOUT:'') (\<lambda>_.
     and_then (print env (stdout result)) (\<lambda>_.
     and_then (print env ''STDERR:'') (\<lambda>_.
     and_then (print env (stderr result)) (\<lambda>_.
     print env (''EXIT CODE: '' @ str_int (returncode result)))))))"

definition run :: "env \<Rightarrow> unit stmt" where
  "run env =
     and_then (print env ''Starting Audit...'') (\<lambda>_.
     try_except_Exception
       (and_then (subprocess_run env
            [sys_executable env, ''.agent/skills/frontend-design/scripts/ux_audit.py'', ''.'']
            Ignore) (\<lambda>result.
        and_then (print env ''STDOUT:'') (\<lambda>_.
        and_then (print env (stdout result)) (\<lambda>_.
        and_then (print env ''STDERR:'') (\<lambda>_.
        and_then (print env (stderr result)) (\<lambda>_.
        print env (''EXIT CODE: '' @ str_int (returncode result))))))))
       (\<lambda>e. print env (''FAILED: '' @ e)))"



subsection \<open>Environments to run the program in\<close>

text \<open>
  Eight surroundings. In the first five the console accepts every write: the audit script
  prints \<^verbatim>\<open>OK\<close> and exits with 0; it complains about its argument and exits with 2; it
  is killed by signal 9; the interpreter is not where \<^verbatim>\<open>sys.executable\<close> says; the user
  presses Ctrl-C while the child runs (\<^verbatim>\<open>KeyboardInterrupt\<close>, whose \<^verbatim>\<open>str()\<close> is empty).
\<close>

definition ok_env :: env where
  "ok_env = \<lparr>sys_executable = ''/usr/bin/python3'',
     child_process = (\<lambda>args. Inr \<lparr>exit_status = 0, stdout_bytes = ''OK'', stderr_bytes = []\<rparr>),
     write_error = (\<lambda>w s. None)\<rparr>"



definition missing_env :: env where
  "missing_env = \<lparr>sys_executable = ''/opt/py/bin/python3'',
     child_process = (\<lambda>args. Inl (Exception ''[Errno 2] No such file or directory'')),
     write_error = (\<lambda>w s. None)\<rparr>"

definition interrupted_env :: env where
  "interrupted_env = \<lparr>sys_executable = ''/usr/bin/python3'',
     child_process = (\<lambda>args. Inl (BaseException [])),
     write_error = (\<lambda>w s. None)\<rparr>"


definition closed_stdout_env :: env where
  "closed_stdout_env = \<lparr>sys_executable = ''/usr/bin/python3'',
     child_process = (\<lambda>args. Inr \<lparr>exit_status = 0, stdout_bytes = ''OK'', stderr_bytes = []\<rparr>),
     write_error = (\<lambda>w s. Some (Exception ''I/O operation on closed file.''))\<rparr>"

definition interrupted_report_env :: env where
  "interrupted_report_env = \<lparr>sys_executable = ''/usr/bin/python3'',
     child_process = (\<lambda>args. Inr \<lparr>exit_status = 0, stdout_bytes = ''OK'', stderr_bytes = []\<rparr>),
     write_error = (\<lambda>w s. if s = ''STDOUT:'' then Some (BaseException []) else None)\<rparr>"

text \<open>What a child leaves behind that writes bytes that are no UTF-8, and a Windows line end.\<close>

definition garbled :: raw_output where
  "garbled = \<lparr>exit_status = 1,
     stdout_bytes = [CHR 0x41, CHR 0xFF, CHR 0xC3, CHR 0xA9, CHR 0xE2, CHR 0x82, CHR 0x42,
        CHR 0xF0, CHR 0x9F],
     stderr_bytes = [CHR 0xC0, CHR 0x80, CHR 0x0D, CHR 0x0A]\<rparr>"

section \<open>Properties\<close>

subsection \<open>Rendering an integer\<close>












subsection \<open>The decoder\<close>

lemma utf8_scan_Sequence:
  assumes "utf8_scan bs = Sequence n"
  shows "0 < n \<and> n \<le> length bs"
proof (cases bs)
  case Nil
  with assms show ?thesis by simp
next
  case (Cons c cs)
  with assms show ?thesis
    by (auto simp: Let_def split: if_splits list.splits)
qed

lemma utf8_scan_Malformed:
  assumes "utf8_scan (c # cs) = Malformed n r"
  shows "0 < n \<and> n \<le> length (c # cs)"
  using assms by (auto simp: Let_def split: if_splits list.splits)

text \<open>A well-formed sequence is recognised whatever follows it.\<close>

lemma utf8_scan_front:
  assumes "utf8_scan bs = Sequence n"
  shows "utf8_scan (take n bs @ rest) = Sequence n"
proof (cases bs)
  case Nil
  with assms show ?thesis by simp
next
  case (Cons c cs)
  with assms show ?thesis
    by (auto simp: Let_def split: if_splits list.splits)
qed

lemma subseq_drop_self: "subseq (drop n xs) xs"
  by (metis append_take_drop_id subseq_order.order_refl list_emb_append2)

lemma decode_from_Sequence:
  assumes "utf8_scan (c # cs) = Sequence n"
  shows "decode_from h pos (c # cs) =
     (case decode_from h (pos + n) (drop n (c # cs)) of
        Inl e \<Rightarrow> Inl e
      | Inr t \<Rightarrow> Inr (take n (c # cs) @ t))"
  using assms by (simp add: decode_from.simps)

lemma decode_from_Malformed_Ignore:
  assumes "utf8_scan (c # cs) = Malformed n r"
  shows "decode_from Ignore pos (c # cs) = decode_from Ignore (pos + n) (drop n (c # cs))"
  using assms by (simp add: decode_from.simps)

lemma decode_from_Malformed_Strict:
  assumes "utf8_scan (c # cs) = Malformed n r"
  shows "decode_from Strict pos (c # cs) = Inl (UnicodeDecodeError pos (pos + n) r)"
  using assms by (simp add: decode_from.simps)

lemma decode_from_Strict_front:
  assumes scan: "utf8_scan bs = Sequence n"
    and rest: "decode_from Strict (pos + n) t = Inr t"
  shows "decode_from Strict pos (take n bs @ t) = Inr (take n bs @ t)"
proof -
  from scan have n: "0 < n" "n \<le> length bs"
    using utf8_scan_Sequence by blast+
  then obtain c cs where front: "take n bs @ t = c # cs"
    by (cases "take n bs @ t") auto
  have "utf8_scan (c # cs) = Sequence n"
    using utf8_scan_front [OF scan, of t] front by simp
  moreover have "drop n (c # cs) = t" "take n (c # cs) = take n bs"
    using n front [symmetric] by simp_all
  ultimately show ?thesis
    using rest front by (simp add: decode_from_Sequence)
qed

text \<open>
  With \<^verbatim>\<open>errors='ignore'\<close> the decoder returns a text for every input. The text is what
  is left of the input when the malformed ranges are taken out, and it is well-formed:
  the strict decoder accepts it as it is.
\<close>

lemma decode_from_Ignore:
  "\<exists>t. decode_from Ignore pos bs = Inr t \<and> subseq t bs
       \<and> (\<forall>p. decode_from Strict p t = Inr t)"
proof (induction bs arbitrary: pos rule: length_induct)
  case (1 bs)
  show ?case
  proof (cases bs)
    case Nil
    then show ?thesis by (simp add: decode_from.simps)
  next
    case (Cons c cs)
    show ?thesis
    proof (cases "utf8_scan bs")
      case (Sequence n)
      then have n: "0 < n" "n \<le> length bs"
        using utf8_scan_Sequence by blast+
      then have "length (drop n bs) < length bs"
        using Cons by simp
      with "1.IH" obtain t where t: "decode_from Ignore (pos + n) (drop n bs) = Inr t"
        "subseq t (drop n bs)" "\<forall>p. decode_from Strict p t = Inr t"
        by blast
      have "decode_from Ignore pos bs = Inr (take n bs @ t)"
        using Sequence Cons t(1) by (simp add: decode_from_Sequence)
      moreover have "subseq (take n bs @ t) bs"
        using t(2) by (metis append_take_drop_id subseq_append')
      moreover have "\<forall>p. decode_from Strict p (take n bs @ t) = Inr (take n bs @ t)"
        using decode_from_Strict_front [OF Sequence] t(3) by blast
      ultimately show ?thesis by blast
    next
      case (Malformed n r)
      then have n: "0 < n" "n \<le> length bs"
        using utf8_scan_Malformed Cons by blast+
      then have "length (drop n bs) < length bs"
        using Cons by simp
      with "1.IH" obtain t where t: "decode_from Ignore (pos + n) (drop n bs) = Inr t"
        "subseq t (drop n bs)" "\<forall>p. decode_from Strict p t = Inr t"
        by blast
      have "decode_from Ignore pos bs = Inr t"
        using Malformed Cons t(1) by (simp add: decode_from_Malformed_Ignore)
      moreover have "subseq t bs"
        using t(2) subseq_drop_self subseq_order.order_trans by blast
      ultimately show ?thesis using t(3) by blast
    qed
  qed
qed

text \<open>What the strict decoder accepts, it returns unchanged, and so does \<^verbatim>\<open>'ignore'\<close>.\<close>

lemma decode_from_Strict_Inr:
  "decode_from Strict pos bs = Inr t \<Longrightarrow> t = bs \<and> decode_from Ignore pos' bs = Inr bs"
proof (induction bs arbitrary: pos pos' t rule: length_induct)
  case (1 bs)
  show ?case
  proof (cases bs)
    case Nil
    with "1.prems" show ?thesis by (simp add: decode_from.simps)
  next
    case (Cons c cs)
    show ?thesis
    proof (cases "utf8_scan bs")
      case (Sequence n)
      then have n: "0 < n" "n \<le> length bs"
        using utf8_scan_Sequence by blast+
      then have shorter: "length (drop n bs) < length bs"
        using Cons by simp
      from "1.prems" Sequence Cons obtain u where
        u: "decode_from Strict (pos + n) (drop n bs) = Inr u" "t = take n bs @ u"
        by (auto simp: decode_from_Sequence split: sum.splits)
      from "1.IH" shorter u(1) have "u = drop n bs"
        and "decode_from Ignore (pos' + n) (drop n bs) = Inr (drop n bs)"
        by blast+
      then show ?thesis
        using u(2) Sequence Cons by (simp add: decode_from_Sequence)
    next
      case (Malformed n r)
      with "1.prems" Cons show ?thesis
        by (simp add: decode_from_Malformed_Strict)
    qed
  qed
qed

lemma decode_Ignore_well_formed:
  assumes "decode Strict bs = Inr t"
  shows "decode Ignore bs = Inr bs"
  using decode_from_Strict_Inr assms unfolding decode_def by blast

text \<open>The strict decoder, Python's default, does raise on bytes that are no UTF-8.\<close>

lemma decode_Strict_raises:
  "decode Strict [CHR 0x41, CHR 0xFF] = Inl (UnicodeDecodeError 1 2 InvalidStartByte)"
  "translate_newlines Strict [CHR 0x41, CHR 0xFF] =
     Inl (Exception ([CHR 0x27] @ ''utf-8'' @ [CHR 0x27] @ '' codec can'' @ [CHR 0x27]
       @ ''t decode byte 0xff in position 1: invalid start byte''))"
  by (simp_all add: translate_newlines_def decode_def decode_from.simps byte_def
      hex_digit_def str_nat.simps digit_def)

lemma communicate_Strict_garbled:
  "communicate Strict garbled =
     Inl (Exception ([CHR 0x27] @ ''utf-8'' @ [CHR 0x27] @ '' codec can'' @ [CHR 0x27]
       @ ''t decode byte 0xff in position 1: invalid start byte''))"
  by (simp add: garbled_def communicate_def translate_newlines_def decode_def
      decode_from.simps byte_def is_continuation_def cr_to_lf_def hex_digit_def
      str_nat.simps digit_def)

subsection \<open>The lines of a text\<close>





subsection \<open>\<^verbatim>\<open>print\<close>, and \<open>run\<close> case by case\<close>


lemma print_effects:
  "\<exists>r ws. print env s w = (r, w @ ws) \<and> list_all console_or_spawn ws \<and> spawned ws = []"
  by (cases "write_error env w s") (simp_all add: print_def spawned_def)

text \<open>The banner cannot be written: nothing else happens.\<close>

lemma run_banner_refused:
  assumes "write_error env [] ''Starting Audit...'' = Some e"
  shows "run env [] = (Inl e, [])"
  using assms by (simp add: run_def and_then_def print_def)

lemma run_after_banner:
  assumes "write_error env [] ''Starting Audit...'' = None"
  shows "run env [] =
     try_except_Exception (guarded env) (\<lambda>e. print env (''FAILED: '' @ e))
       [ConsoleWrite ''Starting Audit...\<newline>'']"
  using assms by (simp add: run_def and_then_def print_def)

lemma guarded_launch_raises:
  assumes "launch env (audit_args env) Ignore = Inl e"
  shows "guarded env w = (Inl e, w @ [Spawn (audit_args env)])"
  using assms by (simp add: and_then_def subprocess_run_def)


lemma guarded_effects:
  "\<exists>r ws. guarded env w = (r, w @ Spawn (audit_args env) # ws)
     \<and> list_all console_or_spawn ws \<and> spawned ws = []"
  by (auto simp: and_then_def subprocess_run_def print_def spawned_def
      split: sum.splits option.splits)



text \<open>The launch raised something that is no \<^verbatim>\<open>Exception\<close>.\<close>

lemma run_launch_interrupted:
  assumes "write_error env [] ''Starting Audit...'' = None"
    and "launch env (audit_args env) Ignore = Inl (BaseException m)"
  shows "run env [] =
     (Inl (BaseException m), [ConsoleWrite ''Starting Audit...\<newline>'', Spawn (audit_args env)])"
  unfolding run_after_banner [OF assms(1)] try_except_Exception_def
    guarded_launch_raises [OF assms(2)]
  by simp

text \<open>
  Whatever happens after the banner: the launch is the next effect, it is the only launch,
  and everything after it is a write to the console.
\<close>

lemma run_effects:
  assumes "write_error env [] ''Starting Audit...'' = None"
  shows "\<exists>r ws. run env [] =
       (r, ConsoleWrite ''Starting Audit...\<newline>'' # Spawn (audit_args env) # ws)
     \<and> list_all console_or_spawn ws \<and> spawned ws = []"
proof -
  obtain r ws where g: "guarded env [ConsoleWrite ''Starting Audit...\<newline>''] =
       (r, [ConsoleWrite ''Starting Audit...\<newline>''] @ Spawn (audit_args env) # ws)"
    "list_all console_or_spawn ws" "spawned ws = []"
    using guarded_effects by blast
  show ?thesis
  proof (cases r)
    case (Inr u)
    then show ?thesis
      unfolding run_after_banner [OF assms] try_except_Exception_def g(1)
      using g(2,3) by simp
  next
    case (Inl e)
    show ?thesis
    proof (cases e)
      case (BaseException m)
      with Inl show ?thesis
        unfolding run_after_banner [OF assms] try_except_Exception_def g(1)
        using g(2,3) by simp
    next
      case (Exception m)
      obtain r' ws' where p: "print env (''FAILED: '' @ m)
          ([ConsoleWrite ''Starting Audit...\<newline>''] @ Spawn (audit_args env) # ws) =
          (r', ([ConsoleWrite ''Starting Audit...\<newline>''] @ Spawn (audit_args env) # ws) @ ws')"
        "list_all console_or_spawn ws'" "spawned ws' = []"
        using print_effects by blast
      have "spawned (ws @ ws') = []"
        using g(3) p(3) by (simp add: spawned_def)
      with Inl Exception show ?thesis
        unfolding run_after_banner [OF assms] try_except_Exception_def g(1)
        using g(2) p by simp
    qed
  qed
qed

subsection \<open>What the launch gives in these surroundings\<close>

lemmas launch_eval = launch_def communicate_def translate_newlines_def decode_def
  decode_from.simps byte_def cr_to_lf_def




lemma launch_missing_env:
  "launch missing_env (audit_args missing_env) Ignore =
     Inl (Exception ''[Errno 2] No such file or directory'')"
  by (simp add: missing_env_def launch_def)

lemma launch_interrupted_env:
  "launch interrupted_env (audit_args interrupted_env) Ignore = Inl (BaseException [])"
  by (simp add: interrupted_env_def launch_def)




lemma guarded_interrupted_report_env:
  "guarded interrupted_report_env [ConsoleWrite ''Starting Audit...\<newline>''] =
     (Inl (BaseException []),
      [ConsoleWrite ''Starting Audit...\<newline>'', Spawn (audit_args interrupted_report_env)])"
  by (simp add: and_then_def print_def subprocess_run_def launch_eval interrupted_report_env_def)

lemma guarded_missing_env:
  "guarded missing_env [ConsoleWrite ''Starting Audit...\<newline>''] =
     (Inl (Exception ''[Errno 2] No such file or directory''),
      [ConsoleWrite ''Starting Audit...\<newline>'', Spawn (audit_args missing_env)])"
  using guarded_launch_raises [OF launch_missing_env] by simp

section \<open>The claims of the specification\<close>

text \<open>
  The claims about what is printed speak of runs in which printing works. They are proved
  for surroundings whose console accepts every write (\<open>accepts_all_writes\<close>), or, where
  only the banner matters, accepts the banner. What happens when a write raises is part
  of C3 and C10.
\<close>










text \<open>
  \<^bold>\<open>C5.\<close> Whatever bytes the child wrote to standard output and standard error, decoding
  them with \<^verbatim>\<open>errors='ignore'\<close> gives a result and never an error. Each captured text is
  what is left of the bytes when the ranges that are no UTF-8 are dropped (a subsequence
  of the bytes that the strict decoder accepts unchanged), with the line ends translated.
  So with \<^verbatim>\<open>errors='ignore'\<close> the launch raises only what starting the child and waiting
  for it raised.
\<close>

theorem capture_never_fails:
  "(\<exists>out err.
      communicate Ignore raw =
        Inr \<lparr>returncode = exit_status raw,
             stdout = cr_to_lf (crlf_to_lf out), stderr = cr_to_lf (crlf_to_lf err)\<rparr>
      \<and> decode Ignore (stdout_bytes raw) = Inr out \<and> subseq out (stdout_bytes raw)
      \<and> decode Strict out = Inr out
      \<and> decode Ignore (stderr_bytes raw) = Inr err \<and> subseq err (stderr_bytes raw)
      \<and> decode Strict err = Inr err)
   \<and> (launch env args Ignore = Inl e \<longrightarrow> child_process env args = Inl e)"
proof
  have total: "\<exists>out err.
      communicate Ignore raw' =
        Inr \<lparr>returncode = exit_status raw',
             stdout = cr_to_lf (crlf_to_lf out), stderr = cr_to_lf (crlf_to_lf err)\<rparr>
      \<and> decode Ignore (stdout_bytes raw') = Inr out \<and> subseq out (stdout_bytes raw')
      \<and> decode Strict out = Inr out
      \<and> decode Ignore (stderr_bytes raw') = Inr err \<and> subseq err (stderr_bytes raw')
      \<and> decode Strict err = Inr err" for raw'
  proof -
    obtain out where out: "decode Ignore (stdout_bytes raw') = Inr out"
      "subseq out (stdout_bytes raw')" "decode Strict out = Inr out"
      using decode_from_Ignore [of 0 "stdout_bytes raw'"] unfolding decode_def by blast
    obtain err where err: "decode Ignore (stderr_bytes raw') = Inr err"
      "subseq err (stderr_bytes raw')" "decode Strict err = Inr err"
      using decode_from_Ignore [of 0 "stderr_bytes raw'"] unfolding decode_def by blast
    have "communicate Ignore raw' =
        Inr \<lparr>returncode = exit_status raw',
             stdout = cr_to_lf (crlf_to_lf out), stderr = cr_to_lf (crlf_to_lf err)\<rparr>"
      by (simp add: communicate_def translate_newlines_def out(1) err(1))
    with out err show ?thesis by blast
  qed
  show "\<exists>out err.
      communicate Ignore raw =
        Inr \<lparr>returncode = exit_status raw,
             stdout = cr_to_lf (crlf_to_lf out), stderr = cr_to_lf (crlf_to_lf err)\<rparr>
      \<and> decode Ignore (stdout_bytes raw) = Inr out \<and> subseq out (stdout_bytes raw)
      \<and> decode Strict out = Inr out
      \<and> decode Ignore (stderr_bytes raw) = Inr err \<and> subseq err (stderr_bytes raw)
      \<and> decode Strict err = Inr err"
    by (rule total)
  show "launch env args Ignore = Inl e \<longrightarrow> child_process env args = Inl e"
  proof
    assume raised: "launch env args Ignore = Inl e"
    show "child_process env args = Inl e"
    proof (cases "child_process env args")
      case (Inl e')
      with raised show ?thesis by (simp add: launch_def)
    next
      case (Inr r)
      with raised total [of r] show ?thesis by (auto simp: launch_def)
    qed
  qed
qed

theorem capture_never_fails_witness:
  "launch missing_env (audit_args missing_env) Ignore =
       Inl (Exception ''[Errno 2] No such file or directory'')
   \<and> child_process missing_env (audit_args missing_env) =
       Inl (Exception ''[Errno 2] No such file or directory'')
   \<and> communicate Ignore garbled =
       Inr \<lparr>returncode = 1, stdout = [CHR 0x41, CHR 0xC3, CHR 0xA9, CHR 0x42], stderr = ''\<newline>''\<rparr>"
proof -
  have "communicate Ignore garbled =
      Inr \<lparr>returncode = 1, stdout = [CHR 0x41, CHR 0xC3, CHR 0xA9, CHR 0x42], stderr = ''\<newline>''\<rparr>"
    by (simp add: garbled_def communicate_def translate_newlines_def decode_def
      decode_from.simps byte_def is_continuation_def cr_to_lf_def)
  then show ?thesis
    using capture_never_fails [of garbled missing_env "audit_args missing_env"
        "Exception ''[Errno 2] No such file or directory''"] launch_missing_env
    by simp
qed

text \<open>
  \<^bold>\<open>C6.\<close> Whatever the launch will give, a finished child or something raised, the first
  effect of a run is the write of the banner line \<^verbatim>\<open>Starting Audit...\<close>, and the launch
  comes right after it: the printed output begins with the banner line. In no run does
  anything happen before the banner is written.
\<close>

theorem banner_is_first:
  "(write_error env [] ''Starting Audit...'' = None \<longrightarrow>
      (\<exists>rest. snd (run env []) =
          ConsoleWrite ''Starting Audit...\<newline>'' # Spawn (audit_args env) # rest
        \<and> console_text (snd (run env [])) = ''Starting Audit...\<newline>'' @ console_text rest))
   \<and> (snd (run env []) = []
      \<or> (\<exists>rest. snd (run env []) = ConsoleWrite ''Starting Audit...\<newline>'' # rest))"
proof (cases "write_error env [] ''Starting Audit...''")
  case None
  then obtain r ws where "run env [] =
      (r, ConsoleWrite ''Starting Audit...\<newline>'' # Spawn (audit_args env) # ws)"
    using run_effects by blast
  then show ?thesis by (simp add: console_text_def)
next
  case (Some e)
  then show ?thesis
    using run_banner_refused by simp
qed

theorem banner_is_first_witness:
  "write_error ok_env [] ''Starting Audit...'' = None
   \<and> write_error missing_env [] ''Starting Audit...'' = None
   \<and> (\<exists>rest. snd (run ok_env []) =
        ConsoleWrite ''Starting Audit...\<newline>'' # Spawn (audit_args ok_env) # rest
      \<and> console_text (snd (run ok_env [])) = ''Starting Audit...\<newline>'' @ console_text rest)
   \<and> (\<exists>rest. snd (run missing_env []) =
        ConsoleWrite ''Starting Audit...\<newline>'' # Spawn (audit_args missing_env) # rest
      \<and> console_text (snd (run missing_env [])) = ''Starting Audit...\<newline>'' @ console_text rest)"
proof -
  have ok: "write_error ok_env [] ''Starting Audit...'' = None"
    by (simp add: ok_env_def)
  have missing: "write_error missing_env [] ''Starting Audit...'' = None"
    by (simp add: missing_env_def)
  show ?thesis
    using banner_is_first [of ok_env] banner_is_first [of missing_env] ok missing by blast
qed



text \<open>
  \<^bold>\<open>C8.\<close> What \<open>run\<close> hands to the launcher is the list of three tokens: the value of
  \<^verbatim>\<open>sys.executable\<close>, the path \<^verbatim>\<open>.agent/skills/frontend-design/scripts/ux_audit.py\<close> and
  \<^verbatim>\<open>.\<close>. It hands it over once, after the banner, and nothing else ever (nothing at all
  when the banner could not be written).
\<close>

theorem invocation_spec:
  "spawned (snd (run env [])) =
     (if write_error env [] ''Starting Audit...'' = None
      then [[sys_executable env, ''.agent/skills/frontend-design/scripts/ux_audit.py'', ''.'']]
      else [])"
proof (cases "write_error env [] ''Starting Audit...''")
  case None
  then obtain r ws where "run env [] =
      (r, ConsoleWrite ''Starting Audit...\<newline>'' # Spawn (audit_args env) # ws)"
    "spawned ws = []"
    using run_effects by blast
  with None show ?thesis by (simp add: spawned_def)
next
  case (Some e)
  then show ?thesis
    using run_banner_refused by (simp add: spawned_def)
qed

theorem invocation_spec_witness:
  "spawned (snd (run ok_env [])) =
     [[''/usr/bin/python3'', ''.agent/skills/frontend-design/scripts/ux_audit.py'', ''.'']]
   \<and> spawned (snd (run closed_stdout_env [])) = []"
  using invocation_spec [of ok_env] invocation_spec [of closed_stdout_env]
  by (simp add: ok_env_def closed_stdout_env_def)

text \<open>
  \<^bold>\<open>C9.\<close> Every effect of a run is a write to the console or the launch of the child:
  no file is written, nothing is sent over the network, the environment is not changed.
  There is never a second launch, and there is exactly one once the banner is written.
  (A launch is counted where \<^verbatim>\<open>subprocess.run\<close> is called, whatever comes of it.)
\<close>

theorem only_console_and_one_child:
  "list_all console_or_spawn (snd (run env []))
   \<and> (\<forall>path text. FileWrite path text \<notin> set (snd (run env [])))
   \<and> (\<forall>text. NetworkSend text \<notin> set (snd (run env [])))
   \<and> (\<forall>name val. EnvironmentSet name val \<notin> set (snd (run env [])))
   \<and> length (spawned (snd (run env []))) \<le> 1
   \<and> (write_error env [] ''Starting Audit...'' = None \<longrightarrow> length (spawned (snd (run env []))) = 1)"
proof -
  have all: "list_all console_or_spawn (snd (run env []))"
  proof (cases "write_error env [] ''Starting Audit...''")
    case None
    then obtain r ws where "run env [] =
        (r, ConsoleWrite ''Starting Audit...\<newline>'' # Spawn (audit_args env) # ws)"
      "list_all console_or_spawn ws"
      using run_effects by blast
    then show ?thesis by simp
  next
    case (Some e)
    then show ?thesis using run_banner_refused by simp
  qed
  have one: "length (spawned (snd (run env []))) \<le> 1"
  proof (cases "write_error env [] ''Starting Audit...''")
    case None
    then obtain r ws where "run env [] =
        (r, ConsoleWrite ''Starting Audit...\<newline>'' # Spawn (audit_args env) # ws)"
      "spawned ws = []"
      using run_effects by blast
    then show ?thesis by (simp add: spawned_def)
  next
    case (Some e)
    then show ?thesis using run_banner_refused by (simp add: spawned_def)
  qed
  have acc: "write_error env [] ''Starting Audit...'' = None \<longrightarrow>
      length (spawned (snd (run env []))) = 1"
  proof
    assume "write_error env [] ''Starting Audit...'' = None"
    then obtain r ws where "run env [] =
        (r, ConsoleWrite ''Starting Audit...\<newline>'' # Spawn (audit_args env) # ws)"
      "spawned ws = []"
      using run_effects by blast
    then show "length (spawned (snd (run env []))) = 1" by (simp add: spawned_def)
  qed
  have "\<And>e. e \<in> set (snd (run env [])) \<Longrightarrow> console_or_spawn e"
    using all by (simp add: list_all_iff)
  then have "\<forall>path text. FileWrite path text \<notin> set (snd (run env []))"
    and "\<forall>text. NetworkSend text \<notin> set (snd (run env []))"
    and "\<forall>name val. EnvironmentSet name val \<notin> set (snd (run env []))"
    by fastforce+
  with all one acc show ?thesis by blast
qed

theorem only_console_and_one_child_witness:
  "write_error ok_env [] ''Starting Audit...'' = None
   \<and> list_all console_or_spawn (snd (run ok_env []))
   \<and> length (spawned (snd (run ok_env []))) = 1"
proof -
  have ok: "write_error ok_env [] ''Starting Audit...'' = None"
    by (simp add: ok_env_def)
  show ?thesis
    using only_console_and_one_child [of ok_env] ok by blast
qed

text \<open>
  \<^bold>\<open>C10.\<close> The handler catches instances of \<^verbatim>\<open>Exception\<close> raised by the statements under
  \<^verbatim>\<open>try\<close>, and nothing else. What printing the banner raises leaves \<open>run\<close>, whatever its
  class, with nothing printed. What is raised under \<^verbatim>\<open>try\<close> and is no \<^verbatim>\<open>Exception\<close>, by
  the launch or by a \<^verbatim>\<open>print\<close>, leaves \<open>run\<close> too, and no \<^verbatim>\<open>FAILED: \<close> line is written
  for it. For an \<^verbatim>\<open>Exception\<close> raised under \<^verbatim>\<open>try\<close>, \<open>run\<close> goes on with the handler's
  \<^verbatim>\<open>print\<close> of \<^verbatim>\<open>FAILED: \<close> and the message.
\<close>

theorem handler_catches_only_Exception:
  "(write_error env [] ''Starting Audit...'' = Some e \<longrightarrow> run env [] = (Inl e, []))
   \<and> (write_error env [] ''Starting Audit...'' = None
        \<and> launch env (audit_args env) Ignore = Inl (BaseException m) \<longrightarrow>
      run env [] = (Inl (BaseException m),
          [ConsoleWrite ''Starting Audit...\<newline>'', Spawn (audit_args env)]))
   \<and> (write_error env [] ''Starting Audit...'' = None
        \<and> guarded env [ConsoleWrite ''Starting Audit...\<newline>''] = (Inl (BaseException m), w) \<longrightarrow>
      run env [] = (Inl (BaseException m), w))
   \<and> (write_error env [] ''Starting Audit...'' = None
        \<and> guarded env [ConsoleWrite ''Starting Audit...\<newline>''] = (Inl (Exception m), w) \<longrightarrow>
      run env [] = print env (''FAILED: '' @ m) w)"
proof (intro conjI impI)
  assume "write_error env [] ''Starting Audit...'' = Some e"
  then show "run env [] = (Inl e, [])" by (rule run_banner_refused)
next
  assume "write_error env [] ''Starting Audit...'' = None
      \<and> launch env (audit_args env) Ignore = Inl (BaseException m)"
  then show "run env [] = (Inl (BaseException m),
      [ConsoleWrite ''Starting Audit...\<newline>'', Spawn (audit_args env)])"
    using run_launch_interrupted by blast
next
  assume "write_error env [] ''Starting Audit...'' = None
      \<and> guarded env [ConsoleWrite ''Starting Audit...\<newline>''] = (Inl (BaseException m), w)"
  then have b: "write_error env [] ''Starting Audit...'' = None"
    and g: "guarded env [ConsoleWrite ''Starting Audit...\<newline>''] = (Inl (BaseException m), w)"
    by blast+
  show "run env [] = (Inl (BaseException m), w)"
    unfolding run_after_banner [OF b] try_except_Exception_def g by simp
next
  assume "write_error env [] ''Starting Audit...'' = None
      \<and> guarded env [ConsoleWrite ''Starting Audit...\<newline>''] = (Inl (Exception m), w)"
  then have b: "write_error env [] ''Starting Audit...'' = None"
    and g: "guarded env [ConsoleWrite ''Starting Audit...\<newline>''] = (Inl (Exception m), w)"
    by blast+
  show "run env [] = print env (''FAILED: '' @ m) w"
    unfolding run_after_banner [OF b] try_except_Exception_def g by simp
qed

theorem handler_catches_only_Exception_witness:
  "write_error closed_stdout_env [] ''Starting Audit...'' =
       Some (Exception ''I/O operation on closed file.'')
   \<and> run closed_stdout_env [] = (Inl (Exception ''I/O operation on closed file.''), [])
   \<and> write_error interrupted_env [] ''Starting Audit...'' = None
   \<and> launch interrupted_env (audit_args interrupted_env) Ignore = Inl (BaseException [])
   \<and> run interrupted_env [] = (Inl (BaseException []),
        [ConsoleWrite ''Starting Audit...\<newline>'', Spawn (audit_args interrupted_env)])
   \<and> write_error interrupted_report_env [] ''Starting Audit...'' = None
   \<and> guarded interrupted_report_env [ConsoleWrite ''Starting Audit...\<newline>''] =
       (Inl (BaseException []),
        [ConsoleWrite ''Starting Audit...\<newline>'', Spawn (audit_args interrupted_report_env)])
   \<and> run interrupted_report_env [] = (Inl (BaseException []),
        [ConsoleWrite ''Starting Audit...\<newline>'', Spawn (audit_args interrupted_report_env)])
   \<and> write_error missing_env [] ''Starting Audit...'' = None
   \<and> guarded missing_env [ConsoleWrite ''Starting Audit...\<newline>''] =
       (Inl (Exception ''[Errno 2] No such file or directory''),
        [ConsoleWrite ''Starting Audit...\<newline>'', Spawn (audit_args missing_env)])
   \<and> run missing_env [] = (Inr (),
        [ConsoleWrite ''Starting Audit...\<newline>'', Spawn (audit_args missing_env),
         ConsoleWrite ''FAILED: [Errno 2] No such file or directory\<newline>''])"
proof -
  have closed: "write_error closed_stdout_env [] ''Starting Audit...'' =
      Some (Exception ''I/O operation on closed file.'')"
    by (simp add: closed_stdout_env_def)
  have interrupted: "write_error interrupted_env [] ''Starting Audit...'' = None"
    by (simp add: interrupted_env_def)
  have report: "write_error interrupted_report_env [] ''Starting Audit...'' = None"
    by (simp add: interrupted_report_env_def)
  have missing: "write_error missing_env [] ''Starting Audit...'' = None"
    by (simp add: missing_env_def)
  have "print missing_env (''FAILED: '' @ ''[Errno 2] No such file or directory'')
      [ConsoleWrite ''Starting Audit...\<newline>'', Spawn (audit_args missing_env)] =
      (Inr (), [ConsoleWrite ''Starting Audit...\<newline>'', Spawn (audit_args missing_env),
         ConsoleWrite ''FAILED: [Errno 2] No such file or directory\<newline>''])"
    by (simp add: print_def missing_env_def)
  then show ?thesis
    using handler_catches_only_Exception [of closed_stdout_env
        "Exception ''I/O operation on closed file.''"]
      handler_catches_only_Exception [of interrupted_env _ "[]"]
      handler_catches_only_Exception [of interrupted_report_env _ "[]"
        "[ConsoleWrite ''Starting Audit...\<newline>'', Spawn (audit_args interrupted_report_env)]"]
      handler_catches_only_Exception [of missing_env _ "''[Errno 2] No such file or directory''"
        "[ConsoleWrite ''Starting Audit...\<newline>'', Spawn (audit_args missing_env)]"]
      closed interrupted report missing launch_interrupted_env
      guarded_interrupted_report_env guarded_missing_env
    by simp
qed

end
